theory Spec2Isabelle
  imports Main
begin

section \<open>Data model (src/types/index.ts)\<close>

datatype role = ADMIN | INSTRUCTOR | STUDENT

record user =
  user_id :: int
  email :: string
  username :: string
  firstName :: string
  lastName :: string
  avatar :: "string option"
  bio :: "string option"
  role :: role
  isVerified :: bool
  createdAt :: string
  updatedAt :: string

section \<open>JavaScript values met by the client\<close>

text \<open>
  Bodies of HTTP error responses and payloads of server-sent events are untyped JSON.
  A number is carried as the text that JavaScript prints for it (\<open>5\<close>, \<open>-0.5\<close>,
  \<open>1e+21\<close>; both zeros print as \<open>0\<close>). An object is the list of its own properties
  in lookup order.
\<close>

datatype jsval =
    JNull
  | JBool bool
  | JNum string
  | JStr string
  | JArr "jsval list"
  | JObj "(string \<times> jsval) list"

text \<open>A thrown JavaScript error object: its constructor name and its message.\<close>

datatype js_error = JsError (err_name: string) (message: string)

text \<open>Truthiness of a string (\<open>if (token)\<close>, \<open>token && ...\<close>) and of a JSON value.\<close>

definition truthy_str :: "string \<Rightarrow> bool" where
  "truthy_str s = (s \<noteq> [])"

fun truthy :: "jsval \<Rightarrow> bool" where
  "truthy JNull = False"
| "truthy (JBool b) = b"
| "truthy (JNum n) = (n \<noteq> ''0'')"
| "truthy (JStr s) = truthy_str s"
| "truthy (JArr _) = True"
| "truthy (JObj _) = True"

definition digit_char :: "nat \<Rightarrow> char" where
  "digit_char d = char_of (48 + d)"

fun show_nat :: "nat \<Rightarrow> string" where
  "show_nat n = (if n < 10 then [digit_char n] else show_nat (n div 10) @ [digit_char (n mod 10)])"

declare show_nat.simps [simp del]

fun join_comma :: "string list \<Rightarrow> string" where
  "join_comma [] = []"
| "join_comma [s] = s"
| "join_comma (s # t # ss) = s @ '','' @ join_comma (t # ss)"

text \<open>
  String conversion, as \<open>new Error(v)\<close> and a property key \<open>m[v]\<close> apply it. An array
  joins its elements with commas, \<open>null\<close> elements printing as the empty string; an object
  prints as \<open>[object Object]\<close>.
\<close>

fun toString :: "jsval \<Rightarrow> string" where
  "toString JNull = ''null''"
| "toString (JBool b) = (if b then ''true'' else ''false'')"
| "toString (JNum n) = n"
| "toString (JStr s) = s"
| "toString (JArr xs) =
     join_comma (map (\<lambda>x. case x of JNull \<Rightarrow> [] | _ \<Rightarrow> toString x) xs)"
| "toString (JObj _) = ''[object Object]''"

section \<open>Browser state shared by the components\<close>

datatype description = Text string | ObjectPrototypeMember string

record toast =
  title :: string
  description :: description
  destructive :: bool

datatype http_method = GET | POST | PATCH | DELETE

record http_request =
  url :: string
  http_method :: http_method
  headers :: "(string \<times> string) list"
  credentials :: string
  body :: "jsval option"

text \<open>
  \<open>access_token\<close> is the entry of localStorage under the key \<open>access_token\<close>;
  \<open>user\<close> and \<open>loading\<close> are the state of AuthProvider; \<open>toasts\<close> and
  \<open>requests\<close> log the notifications raised and the calls of \<open>fetch\<close>, oldest first.
\<close>

record world =
  access_token :: "string option"
  user :: "user option"
  loading :: bool
  toasts :: "toast list"
  requests :: "http_request list"

definition initial_world :: "string option \<Rightarrow> world" where
  "initial_world stored =
     \<lparr>access_token = stored, user = None, loading = True, toasts = [], requests = []\<rparr>"

definition getTokenFromStorage :: "world \<Rightarrow> string option" where
  "getTokenFromStorage w = access_token w"

definition setTokenInStorage :: "string \<Rightarrow> world \<Rightarrow> world" where
  "setTokenInStorage t w = w\<lparr>access_token := Some t\<rparr>"

definition removeTokenFromStorage :: "world \<Rightarrow> world" where
  "removeTokenFromStorage w = w\<lparr>access_token := None\<rparr>"

text \<open>\<open>if (token)\<close> on a value of type \<open>string | null\<close>.\<close>

definition truthy_token :: "string option \<Rightarrow> bool" where
  "truthy_token t = (case t of None \<Rightarrow> False | Some s \<Rightarrow> truthy_str s)"

definition push_toast :: "toast \<Rightarrow> world \<Rightarrow> world" where
  "push_toast t w = w\<lparr>toasts := toasts w @ [t]\<rparr>"

section \<open>API client (src/lib/api.ts)\<close>

definition API_BASE_URL :: string where
  "API_BASE_URL = ''http://localhost:3000''"

text \<open>
  What one call of \<open>fetch\<close> and the following \<open>response.json()\<close> can do: \<open>fetch\<close>
  rejects; or the response has \<open>ok = false\<close>, a status and a body that parses as JSON or
  does not; or the response has \<open>ok = true\<close> and a body that parses, at the declared type
  of the call, or does not. The body of a request is kept as the value handed to
  \<open>JSON.stringify\<close>.
\<close>

datatype 'a fetch_outcome =
    FetchRejected js_error
  | HttpError nat "js_error + jsval"
  | HttpOk "js_error + 'a"

definition getAuthHeaders :: "world \<Rightarrow> (string \<times> string) list" where
  "getAuthHeaders w =
     (''Content-Type'', ''application/json'') #
     (case getTokenFromStorage w of
        None \<Rightarrow> []
      | Some token \<Rightarrow> if truthy_str token then [(''Authorization'', ''Bearer '' @ token)] else [])"

definition http_error_fallback :: "nat \<Rightarrow> string" where
  "http_error_fallback status = ''HTTP error! status: '' @ show_nat status"

text \<open>
  \<open>errorData.message || `HTTP error! status: ${response.status}`\<close>, where \<open>errorData\<close> is
  the parsed body, or \<open>{}\<close> when parsing rejects. Reading a property of \<open>null\<close> throws.
\<close>

definition error_of_body :: "nat \<Rightarrow> js_error + jsval \<Rightarrow> js_error" where
  "error_of_body status parsed =
     (case parsed of
        Inl _ \<Rightarrow> JsError ''Error'' (http_error_fallback status)
      | Inr JNull \<Rightarrow> JsError ''TypeError'' ''Cannot read properties of null (reading 'message')''
      | Inr (JObj props) \<Rightarrow>
          (case map_of props ''message'' of
             None \<Rightarrow> JsError ''Error'' (http_error_fallback status)
           | Some m \<Rightarrow>
               if truthy m then JsError ''Error'' (toString m)
               else JsError ''Error'' (http_error_fallback status))
      | Inr _ \<Rightarrow> JsError ''Error'' (http_error_fallback status))"

definition request ::
  "string \<Rightarrow> http_method \<Rightarrow> jsval option \<Rightarrow> 'a fetch_outcome \<Rightarrow> world \<Rightarrow> world \<times> (js_error + 'a)" where
  "request endpoint m b outcome w =
     (let config = \<lparr>url = API_BASE_URL @ endpoint, http_method = m,
                     headers = getAuthHeaders w, credentials = ''include'', body = b\<rparr>;
          w' = w\<lparr>requests := requests w @ [config]\<rparr>
      in case outcome of
           FetchRejected e \<Rightarrow> (w', Inl e)
         | HttpError status parsed \<Rightarrow> (w', Inl (error_of_body status parsed))
         | HttpOk parsed \<Rightarrow> (w', parsed))"

record login_response =
  response_user :: user
  accessToken :: string

definition apiClient_login ::
  "string \<Rightarrow> string \<Rightarrow> login_response fetch_outcome \<Rightarrow> world \<Rightarrow> world \<times> (js_error + login_response)" where
  "apiClient_login uname password outcome w =
     (case request ''/auth/login'' POST
             (Some (JObj [(''username'', JStr uname), (''password'', JStr password)])) outcome w of
        (w', Inl e) \<Rightarrow> (w', Inl e)
      | (w', Inr response) \<Rightarrow>
          (if truthy_str (accessToken response)
           then (setTokenInStorage (accessToken response) w', Inr response)
           else (w', Inr response)))"

definition getMe :: "user fetch_outcome \<Rightarrow> world \<Rightarrow> world \<times> (js_error + user)" where
  "getMe outcome w = request ''/auth/me'' GET None outcome w"

text \<open>\<open>try { await this.request(...) } finally { this.removeTokenFromStorage() }\<close>\<close>

definition apiClient_logout :: "unit fetch_outcome \<Rightarrow> world \<Rightarrow> world \<times> (js_error + unit)" where
  "apiClient_logout outcome w =
     (case request ''/auth/logout'' POST None outcome w of
        (w', r) \<Rightarrow> (removeTokenFromStorage w', r))"

section \<open>Session manager (src/contexts/AuthContext.tsx)\<close>

definition setUser :: "user option \<Rightarrow> world \<Rightarrow> world" where
  "setUser u w = w\<lparr>user := u\<rparr>"

definition setLoading :: "bool \<Rightarrow> world \<Rightarrow> world" where
  "setLoading b w = w\<lparr>loading := b\<rparr>"

definition checkAuthStatus :: "user fetch_outcome \<Rightarrow> world \<Rightarrow> world" where
  "checkAuthStatus outcome w =
     setLoading False
       (if truthy_token (getTokenFromStorage w)
        then (case getMe outcome w of
                (w', Inr userData) \<Rightarrow> setUser (Some userData) w'
              | (w', Inl e) \<Rightarrow> setUser None (removeTokenFromStorage w'))
        else setUser None w)"

definition login ::
  "string \<Rightarrow> string \<Rightarrow> login_response fetch_outcome \<Rightarrow> world \<Rightarrow> world \<times> (js_error + unit)" where
  "login uname password outcome w =
     (case apiClient_login uname password outcome w of
        (w', Inr response) \<Rightarrow>
          (push_toast \<lparr>title = ''Success'', description = Text ''Logged in successfully'',
                       destructive = False\<rparr>
             (setUser (Some (response_user response)) w'), Inr ())
      | (w', Inl e) \<Rightarrow>
          (push_toast \<lparr>title = ''Error'', description = Text (message e), destructive = True\<rparr> w',
           Inl e))"

definition logout :: "unit fetch_outcome \<Rightarrow> world \<Rightarrow> world \<times> (js_error + unit)" where
  "logout outcome w =
     (case apiClient_logout outcome w of
        (w', Inr _) \<Rightarrow>
          (push_toast \<lparr>title = ''Success'', description = Text ''Logged out successfully'',
                       destructive = False\<rparr>
             (setUser None w'), Inr ())
      | (w', Inl e) \<Rightarrow> (setUser None (removeTokenFromStorage w'), Inr ()))"

section \<open>Event stream constructor (src/lib/api.ts)\<close>

text \<open>
  \<open>encodeURIComponent\<close> on strings of 8-bit code units: the unreserved characters are
  kept, every other character is replaced by the percent-escapes of its UTF-8 bytes.
\<close>

definition uri_unreserved :: "char \<Rightarrow> bool" where
  "uri_unreserved c =
     (let n = (of_char c :: nat)
      in (65 \<le> n \<and> n \<le> 90) \<or> (97 \<le> n \<and> n \<le> 122) \<or> (48 \<le> n \<and> n \<le> 57)
         \<or> c \<in> set ''-_.!~*'()'')"

definition hex_digit :: "nat \<Rightarrow> char" where
  "hex_digit d = (if d < 10 then char_of (48 + d) else char_of (55 + d))"

definition percent_byte :: "nat \<Rightarrow> string" where
  "percent_byte b = [CHR ''%'', hex_digit (b div 16), hex_digit (b mod 16)]"

definition utf8_bytes :: "char \<Rightarrow> nat list" where
  "utf8_bytes c =
     (let n = (of_char c :: nat)
      in if n < 128 then [n] else [192 + n div 64, 128 + n mod 64])"

definition encodeURIComponent :: "string \<Rightarrow> string" where
  "encodeURIComponent s =
     concat (map (\<lambda>c. if uri_unreserved c then [c] else concat (map percent_byte (utf8_bytes c))) s)"

record event_source =
  es_url :: string
  withCredentials :: bool
  es_closed :: bool

definition createEventStream :: "world \<Rightarrow> js_error + event_source" where
  "createEventStream w =
     (case getTokenFromStorage w of
        None \<Rightarrow> Inl (JsError ''Error'' ''No authentication token found'')
      | Some token \<Rightarrow>
          if \<not> truthy_str token then Inl (JsError ''Error'' ''No authentication token found'')
          else Inr \<lparr>es_url = API_BASE_URL @ ''/event/stream?token='' @ encodeURIComponent token,
                     withCredentials = True, es_closed = False\<rparr>)"

section \<open>Route authorization guard\<close>

datatype route_decision = LoadingIndicator | RedirectTo string | RenderChildren

text \<open>
  Modelled from the spec: the component \<open>ProtectedRoute\<close> (components/ProtectedRoute),
  which src/App.tsx imports and wraps around every protected route, is not among the
  sources. The definition follows section 4.3 of the specification: pending while the session
  initializes, then unauthenticated, then forbidden, then authorized.
\<close>

definition ProtectedRoute :: "role list \<Rightarrow> world \<Rightarrow> route_decision" where
  "ProtectedRoute allowedRoles w =
     (if loading w then LoadingIndicator
      else case user w of
             None \<Rightarrow> RedirectTo ''/login''
           | Some u \<Rightarrow>
               if allowedRoles \<noteq> [] \<and> role u \<notin> set allowedRoles
               then RedirectTo ''/unauthorized''
               else RenderChildren)"

text \<open>The protected routes of src/App.tsx, each with the roles it declares.\<close>

definition protected_routes :: "(string \<times> role list) list" where
  "protected_routes =
     [(''/'', []),
      (''/settings'', []),
      (''/student'', [STUDENT]),
      (''/student/courses/:courseId'', [STUDENT]),
      (''/instructor'', [INSTRUCTOR]),
      (''/instructor/courses/:courseId'', [INSTRUCTOR]),
      (''/admin'', [ADMIN])]"

section \<open>Live event channel (src/pages/admin/AdminDashboard.tsx)\<close>

text \<open>
  \<open>recentEvents\<close> and \<open>dashboard_loading\<close> are the component's state (the latter is
  its \<open>loading\<close>); \<open>mounted\<close> tells whether the component is still in the tree, and a
  component that is not has no state to read or to set; \<open>eventSource\<close> is the object that
  \<open>setupEventStream\<close> created, if it did; \<open>console\<close> logs the calls of
  \<open>console.error\<close>.
\<close>

record admin_dashboard =
  recentEvents :: "jsval list"
  eventSource :: "event_source option"
  console :: "string list"
  dashboard_loading :: bool
  mounted :: bool

definition initial_admin :: admin_dashboard where
  "initial_admin =
     \<lparr>recentEvents = [], eventSource = None, console = [], dashboard_loading = True,
      mounted = True\<rparr>"

















definition close_source :: "admin_dashboard \<Rightarrow> admin_dashboard" where
  "close_source a = a\<lparr>eventSource := map_option (\<lambda>es. es\<lparr>es_closed := True\<rparr>) (eventSource a)\<rparr>"

definition onerror :: "world \<times> admin_dashboard \<Rightarrow> world \<times> admin_dashboard" where
  "onerror s =
     (case s of (w, a) \<Rightarrow> (w, close_source (a\<lparr>console := console a @ [''EventSource failed:'']\<rparr>)))"





text \<open>A cleanup function that an effect hands to React, to be run on unmount.\<close>

datatype cleanup = CloseEventSource | DisconnectSocket

text \<open>
  \<open>setupEventStream\<close> returns the closure \<open>() => eventSource.close()\<close>, or nothing
  from its \<open>catch\<close> branch.
\<close>

definition setupEventStream ::
  "world \<times> admin_dashboard \<Rightarrow> (world \<times> admin_dashboard) \<times> cleanup option" where
  "setupEventStream s =
     (case s of (w, a) \<Rightarrow>
        (case createEventStream w of
           Inr es \<Rightarrow> ((w, a\<lparr>eventSource := Some es\<rparr>), Some CloseEventSource)
         | Inl e \<Rightarrow>
             ((push_toast \<lparr>title = ''Error'',
                           description = Text ''Failed to establish real-time connection'',
                           destructive = True\<rparr> w,
               a\<lparr>console := console a @ [''Failed to setup event stream:'']\<rparr>), None)))"

text \<open>
  The mount effect: \<open>useEffect(() => { loadDashboardData(); setupEventStream(); }, [])\<close>.
  The effect's own result is what React keeps as cleanup: the body has no \<open>return\<close>, so
  that is nothing. \<open>loadDashboardData\<close> only starts its requests here; its end is
  \<open>loadDashboardData_done\<close>.
\<close>

definition admin_mount_effect ::
  "world \<times> admin_dashboard \<Rightarrow> (world \<times> admin_dashboard) \<times> cleanup option" where
  "admin_mount_effect s = (fst (setupEventStream s), None)"

definition admin_run_cleanup :: "cleanup option \<Rightarrow> world \<times> admin_dashboard \<Rightarrow> world \<times> admin_dashboard" where
  "admin_run_cleanup c s =
     (case c of
        Some CloseEventSource \<Rightarrow> (case s of (w, a) \<Rightarrow> (w, close_source a))
      | _ \<Rightarrow> s)"

text \<open>One visit of the admin view: mount, then unmount with whatever cleanup the effect registered.\<close>

definition admin_unmount :: "cleanup option \<Rightarrow> world \<times> admin_dashboard \<Rightarrow> world \<times> admin_dashboard" where
  "admin_unmount c s = (case admin_run_cleanup c s of (w, a) \<Rightarrow> (w, a\<lparr>mounted := False\<rparr>))"

definition admin_mount_unmount :: "world \<times> admin_dashboard \<Rightarrow> world \<times> admin_dashboard" where
  "admin_mount_unmount s = (case admin_mount_effect s of (s', c) \<Rightarrow> admin_unmount c s')"

section \<open>Course chat (CourseChat component, second part of src/components/Layout.tsx)\<close>

record message_user =
  mu_id :: int
  mu_username :: string
  mu_email :: string
  mu_firstName :: string
  mu_lastName :: string

record course_message =
  cm_id :: int
  cm_text :: string
  cm_user :: message_user
  cm_createdAt :: string

datatype emit_payload =
    CourseIdPayload int
  | MessagePayload (p_courseId: int) (p_userId: int) (p_username: string) (p_text: string)

text \<open>
  A socket.io client object: the token of its auth payload, its transports, the events it was
  asked to emit (oldest first), and whether \<open>disconnect()\<close> was called on it.
\<close>

record socket_io =
  auth_token :: string
  transports :: "string list"
  emitted :: "(string \<times> emit_payload) list"
  disconnected :: bool

record course_chat =
  socket :: "socket_io option"
  messages :: "course_message list"
  newMessage :: string
  chat_loading :: bool

definition initial_chat :: course_chat where
  "initial_chat = \<lparr>socket = None, messages = [], newMessage = [], chat_loading = True\<rparr>"

definition canAccessChat :: "user option \<Rightarrow> string option \<Rightarrow> bool" where
  "canAccessChat u userEnrollmentStatus =
     (map_option role u = Some INSTRUCTOR \<or> userEnrollmentStatus = Some ''ACTIVE'')"

text \<open>The connection effect of CourseChat, run on mount.\<close>

definition chat_mount_effect ::
  "int \<Rightarrow> string option \<Rightarrow> world \<Rightarrow> course_chat \<Rightarrow> course_chat \<times> cleanup option" where
  "chat_mount_effect courseId userEnrollmentStatus w c =
     (if \<not> canAccessChat (user w) userEnrollmentStatus then (c\<lparr>chat_loading := False\<rparr>, None)
      else case getTokenFromStorage w of
             None \<Rightarrow> (c, None)
           | Some token \<Rightarrow>
               if \<not> truthy_str token then (c, None)
               else (c\<lparr>socket := Some \<lparr>auth_token = token,
                                         transports = [''websocket'', ''polling''],
                                         emitted = [(''joinCourse'', CourseIdPayload courseId)],
                                         disconnected = False\<rparr>\<rparr>,
                     Some DisconnectSocket))"

definition chat_run_cleanup :: "cleanup option \<Rightarrow> course_chat \<Rightarrow> course_chat" where
  "chat_run_cleanup cl c =
     (case cl of
        Some DisconnectSocket \<Rightarrow> c\<lparr>socket := map_option (\<lambda>s. s\<lparr>disconnected := True\<rparr>) (socket c)\<rparr>
      | _ \<Rightarrow> c)"

datatype server_event =
    JoinCourseSuccess
  | JoinCourseError
  | CourseMessage course_message
  | SendCourseMessageError

definition socket_emit :: "string \<Rightarrow> emit_payload \<Rightarrow> socket_io \<Rightarrow> socket_io" where
  "socket_emit ev p s = s\<lparr>emitted := emitted s @ [(ev, p)]\<rparr>"

text \<open>
  The listeners registered by the effect. They exist only on a socket that the effect
  created. \<open>joinCourseSuccess\<close> has two listeners, run in the order of registration.
\<close>

definition on_server_event ::
  "int \<Rightarrow> server_event \<Rightarrow> world \<times> course_chat \<Rightarrow> world \<times> course_chat" where
  "on_server_event courseId ev s =
     (case s of (w, c) \<Rightarrow>
        (case socket c of
           None \<Rightarrow> (w, c)
         | Some sock \<Rightarrow>
             (case ev of
                JoinCourseSuccess \<Rightarrow>
                  (w, c\<lparr>socket := Some (socket_emit ''join-course'' (CourseIdPayload courseId) sock),
                        chat_loading := False\<rparr>)
              | JoinCourseError \<Rightarrow>
                  (push_toast \<lparr>title = ''Error'',
                               description = Text ''Failed to connect to course chat'',
                               destructive = True\<rparr> w,
                   c\<lparr>chat_loading := False\<rparr>)
              | CourseMessage m \<Rightarrow> (w, c\<lparr>messages := messages c @ [m]\<rparr>)
              | SendCourseMessageError \<Rightarrow>
                  (push_toast \<lparr>title = ''Error'', description = Text ''Failed to send message'',
                               destructive = True\<rparr> w, c))))"

text \<open>\<open>String.prototype.trim\<close> on strings of 8-bit code units.\<close>

definition is_whitespace :: "char \<Rightarrow> bool" where
  "is_whitespace c = ((of_char c :: nat) \<in> set [9, 10, 11, 12, 13, 32, 160])"

definition trim :: "string \<Rightarrow> string" where
  "trim s = rev (dropWhile is_whitespace (rev (dropWhile is_whitespace s)))"

definition handleSendMessage :: "int \<Rightarrow> world \<Rightarrow> course_chat \<Rightarrow> course_chat" where
  "handleSendMessage courseId w c =
     (if \<not> truthy_str (trim (newMessage c)) then c
      else case socket c of
             None \<Rightarrow> c
           | Some sock \<Rightarrow>
               (case user w of
                  None \<Rightarrow> c
                | Some u \<Rightarrow>
                    c\<lparr>socket := Some (socket_emit ''sendCourseMessage''
                                        (MessagePayload courseId (user_id u) (username u)
                                           (trim (newMessage c))) sock),
                      newMessage := []\<rparr>))"

datatype chat_view = ChatUnavailable string | Spinner | ChatPanel

definition chat_render :: "string option \<Rightarrow> world \<Rightarrow> course_chat \<Rightarrow> chat_view" where
  "chat_render userEnrollmentStatus w c =
     (if \<not> canAccessChat (user w) userEnrollmentStatus
      then ChatUnavailable
             (if map_option role (user w) = Some STUDENT
              then ''You need an active enrollment to access the course chat.''
              else ''Chat access is restricted.'')
      else if chat_loading c then Spinner
      else ChatPanel)"

text \<open>Everything the chat component has asked its socket to emit, if it has a socket.\<close>

definition chat_emitted :: "course_chat \<Rightarrow> (string \<times> emit_payload) list" where
  "chat_emitted c = (case socket c of None \<Rightarrow> [] | Some s \<Rightarrow> emitted s)"

text \<open>
  What happens to a mounted chat component: the server sends an event, the user edits the
  input, or the user submits the form.
\<close>

datatype chat_action = ServerEvent server_event | TypeText string | Submit

fun chat_step :: "int \<Rightarrow> chat_action \<Rightarrow> world \<times> course_chat \<Rightarrow> world \<times> course_chat" where
  "chat_step courseId (ServerEvent ev) s = on_server_event courseId ev s"
| "chat_step courseId (TypeText t) (w, c) = (w, c\<lparr>newMessage := t\<rparr>)"
| "chat_step courseId Submit (w, c) = (w, handleSendMessage courseId w c)"

fun chat_run :: "int \<Rightarrow> chat_action list \<Rightarrow> world \<times> course_chat \<Rightarrow> world \<times> course_chat" where
  "chat_run courseId [] s = s"
| "chat_run courseId (x # xs) s = chat_run courseId xs (chat_step courseId x s)"

section \<open>Sample values\<close>

definition ada :: user where
  "ada = \<lparr>user_id = 7, email = ''ada@example.org'', username = ''ada'', firstName = ''Ada'',
          lastName = ''Lovelace'', avatar = None, bio = None, role = STUDENT, isVerified = True,
          createdAt = ''2024-01-01'', updatedAt = ''2024-01-02''\<rparr>"

definition grace :: user where
  "grace = \<lparr>user_id = 3, email = ''grace@example.org'', username = ''grace'', firstName = ''Grace'',
            lastName = ''Hopper'', avatar = None, bio = None, role = INSTRUCTOR, isVerified = True,
            createdAt = ''2024-01-01'', updatedAt = ''2024-01-02''\<rparr>"


text \<open>A session after boot with the given token stored and the given user signed in.\<close>

definition signed_in :: "string option \<Rightarrow> user \<Rightarrow> world" where
  "signed_in stored u = (initial_world stored)\<lparr>user := Some u, loading := False\<rparr>"







text \<open>A chat component that holds a socket and has the given text in its input.\<close>

definition joined_chat :: "string \<Rightarrow> course_chat" where
  "joined_chat t0 =
     \<lparr>socket = Some \<lparr>auth_token = ''tok'', transports = [''websocket'', ''polling''],
                      emitted = [(''joinCourse'', CourseIdPayload 12)], disconnected = False\<rparr>,
      messages = [], newMessage = t0, chat_loading = False\<rparr>"

section \<open>Properties of the session manager\<close>

lemma request_world:
  "access_token (fst (request ep m b outcome w)) = access_token w"
  "user (fst (request ep m b outcome w)) = user w"
  "loading (fst (request ep m b outcome w)) = loading w"
  "toasts (fst (request ep m b outcome w)) = toasts w"
  "length (requests (fst (request ep m b outcome w))) = Suc (length (requests w))"
  by (simp_all add: request_def Let_def split: fetch_outcome.splits)

text \<open>
  Claim C1. Boot-time restoration. With nothing stored under \<open>access_token\<close> the session
  ends with no user, initialization complete, and no request sent. (A stored empty string is
  treated by the code as no token: again no user and no request.) With a stored token and a
  who-am-i call that fails, whatever the failure, the token is removed and the session ends
  with no user. In every case \<open>loading\<close> ends false. The call to \<open>fetch\<close> is taken to
  settle, as resolved or rejected.
\<close>

theorem checkAuthStatus_restoration:
  "(access_token w = None \<longrightarrow>
      user (checkAuthStatus outcome w) = None \<and> \<not> loading (checkAuthStatus outcome w)
      \<and> requests (checkAuthStatus outcome w) = requests w
      \<and> access_token (checkAuthStatus outcome w) = None)
   \<and> (access_token w = Some [] \<longrightarrow>
      user (checkAuthStatus outcome w) = None \<and> requests (checkAuthStatus outcome w) = requests w)
   \<and> (access_token w = Some t \<and> t \<noteq> [] \<and> snd (getMe outcome w) = Inl e \<longrightarrow>
      access_token (checkAuthStatus outcome w) = None \<and> user (checkAuthStatus outcome w) = None
      \<and> length (requests (checkAuthStatus outcome w)) = Suc (length (requests w)))
   \<and> \<not> loading (checkAuthStatus outcome w)"
  using request_world[of "''/auth/me''" GET None outcome w]
  by (cases "request ''/auth/me'' GET None outcome w")
     (auto simp: checkAuthStatus_def getMe_def setLoading_def setUser_def truthy_token_def
        truthy_str_def getTokenFromStorage_def removeTokenFromStorage_def
        split: prod.splits sum.splits)

theorem checkAuthStatus_restoration_witness:
  "user (checkAuthStatus (FetchRejected (JsError ''TypeError'' ''Failed to fetch'')) (initial_world None)) = None
   \<and> requests (checkAuthStatus (FetchRejected (JsError ''TypeError'' ''Failed to fetch'')) (initial_world None)) = []
   \<and> access_token (checkAuthStatus (HttpError 401 (Inr (JObj [(''message'', JStr ''Unauthorized'')]))) (initial_world (Some ''abc''))) = None
   \<and> user (checkAuthStatus (HttpError 401 (Inr (JObj [(''message'', JStr ''Unauthorized'')]))) (initial_world (Some ''abc''))) = None
   \<and> \<not> loading (checkAuthStatus (HttpError 401 (Inr (JObj [(''message'', JStr ''Unauthorized'')]))) (initial_world (Some ''abc'')))"
proof -
  have a: "access_token (initial_world None) = None" by (simp add: initial_world_def)
  have b: "access_token (initial_world (Some ''abc'')) = Some ''abc'' \<and> ''abc'' \<noteq> []
     \<and> snd (getMe (HttpError 401 (Inr (JObj [(''message'', JStr ''Unauthorized'')]))) (initial_world (Some ''abc'')))
        = Inl (JsError ''Error'' ''Unauthorized'')"
    by (simp add: initial_world_def getMe_def request_def Let_def error_of_body_def truthy_str_def)
  show ?thesis
    using a b
      checkAuthStatus_restoration[of "initial_world None" "FetchRejected (JsError ''TypeError'' ''Failed to fetch'')"]
      checkAuthStatus_restoration[of "initial_world (Some ''abc'')" "HttpError 401 (Inr (JObj [(''message'', JStr ''Unauthorized'')]))" "''abc''" "JsError ''Error'' ''Unauthorized''"]
    by (simp add: initial_world_def)
qed

text \<open>
  Claim C2. Logout, whatever the server-side call does, ends with no stored token and no
  current user, and returns normally: a failure of the call is not passed on. A second logout
  after the first leaves the same state.
\<close>

theorem logout_always_clears:
  "access_token (fst (logout outcome w)) = None
   \<and> user (fst (logout outcome w)) = None
   \<and> snd (logout outcome w) = Inr ()
   \<and> access_token (fst (logout outcome2 (fst (logout outcome w)))) = None
   \<and> user (fst (logout outcome2 (fst (logout outcome w)))) = None
   \<and> snd (logout outcome2 (fst (logout outcome w))) = Inr ()"
proof -
  have one: "access_token (fst (logout oc v)) = None \<and> user (fst (logout oc v)) = None
      \<and> snd (logout oc v) = Inr ()" for oc v
    by (cases "request ''/auth/logout'' POST None oc v")
       (auto simp: logout_def apiClient_logout_def removeTokenFromStorage_def setUser_def
          push_toast_def split: prod.splits sum.splits)
  show ?thesis using one[of outcome w] one[of outcome2 "fst (logout outcome w)"] by simp
qed




text \<open>
  Claim C4, as amended. When the login API operation returns a response, login returns
  normally and the current user is the user of that response. When the response carries a
  non-empty \<open>accessToken\<close>, storage holds it, and holds it already when the API operation
  returns. When the \<open>accessToken\<close> is empty, storage is left as it was.
\<close>

theorem login_success:
  "snd (apiClient_login uname password outcome w) = Inr response \<longrightarrow>
     snd (login uname password outcome w) = Inr ()
     \<and> user (fst (login uname password outcome w)) = Some (response_user response)
     \<and> (accessToken response \<noteq> [] \<longrightarrow>
          access_token (fst (apiClient_login uname password outcome w)) = Some (accessToken response)
          \<and> access_token (fst (login uname password outcome w)) = Some (accessToken response))
     \<and> (accessToken response = [] \<longrightarrow>
          access_token (fst (login uname password outcome w)) = access_token w)"
  by (cases outcome)
     (auto simp: login_def apiClient_login_def request_def Let_def push_toast_def setUser_def
        setTokenInStorage_def truthy_str_def split: prod.splits sum.splits if_splits)

theorem login_success_witness:
  "snd (login ''ada'' ''pw'' (HttpOk (Inr \<lparr>response_user = ada, accessToken = ''tok1''\<rparr>)) (initial_world None)) = Inr ()
   \<and> user (fst (login ''ada'' ''pw'' (HttpOk (Inr \<lparr>response_user = ada, accessToken = ''tok1''\<rparr>)) (initial_world None)))
      = Some (response_user \<lparr>response_user = ada, accessToken = ''tok1''\<rparr>)
   \<and> access_token (fst (apiClient_login ''ada'' ''pw'' (HttpOk (Inr \<lparr>response_user = ada, accessToken = ''tok1''\<rparr>)) (initial_world None)))
      = Some (accessToken \<lparr>response_user = ada, accessToken = ''tok1''\<rparr>)
   \<and> access_token (fst (login ''ada'' ''pw'' (HttpOk (Inr \<lparr>response_user = ada, accessToken = ''tok1''\<rparr>)) (initial_world None)))
      = Some (accessToken \<lparr>response_user = ada, accessToken = ''tok1''\<rparr>)"
proof -
  let ?r = "\<lparr>response_user = ada, accessToken = ''tok1''\<rparr>"
  let ?o = "HttpOk (Inr ?r)"
  have h: "snd (apiClient_login ''ada'' ''pw'' ?o (initial_world None)) = Inr ?r"
    by (simp add: apiClient_login_def request_def Let_def truthy_str_def)
  have k: "accessToken ?r \<noteq> []" by simp
  note T = login_success[of "''ada''" "''pw''" ?o "initial_world None" ?r, THEN mp, OF h]
  note T1 = T[THEN conjunct1]
  note T2 = T[THEN conjunct2, THEN conjunct1]
  note T3 = T[THEN conjunct2, THEN conjunct2, THEN conjunct1, THEN mp, OF k]
  show ?thesis by (rule conjI[OF T1 conjI[OF T2 T3]])
qed

text \<open>
  Against claim C4 as stated: a login whose response carries an empty \<open>accessToken\<close>
  succeeds and sets the user, while storage stays empty, or keeps the token of an earlier
  session.
\<close>

theorem login_token_counterexample:
  "snd (login ''ada'' ''pw'' (HttpOk (Inr \<lparr>response_user = ada, accessToken = []\<rparr>)) (initial_world None)) = Inr ()
   \<and> user (fst (login ''ada'' ''pw'' (HttpOk (Inr \<lparr>response_user = ada, accessToken = []\<rparr>)) (initial_world None))) = Some ada
   \<and> access_token (fst (login ''ada'' ''pw'' (HttpOk (Inr \<lparr>response_user = ada, accessToken = []\<rparr>)) (initial_world None))) = None
   \<and> snd (login ''ada'' ''pw'' (HttpOk (Inr \<lparr>response_user = ada, accessToken = []\<rparr>)) (signed_in (Some ''old'') grace)) = Inr ()
   \<and> user (fst (login ''ada'' ''pw'' (HttpOk (Inr \<lparr>response_user = ada, accessToken = []\<rparr>)) (signed_in (Some ''old'') grace))) = Some ada
   \<and> access_token (fst (login ''ada'' ''pw'' (HttpOk (Inr \<lparr>response_user = ada, accessToken = []\<rparr>)) (signed_in (Some ''old'') grace))) = Some ''old''"
  by (simp add: login_def apiClient_login_def request_def Let_def push_toast_def setUser_def
        truthy_str_def initial_world_def signed_in_def)

section \<open>Properties of the route guard\<close>

text \<open>
  Claim C5. Once the session has finished initializing: an authenticated user on a route
  with no declared roles gets the view; a STUDENT on a route that allows only ADMIN is sent to
  \<open>/unauthorized\<close>; a user whose role is among the allowed ones gets the view; without a
  user the guard sends to \<open>/login\<close> whatever the allowed roles. While the session is
  initializing the guard shows the loading indicator, whatever the user and the roles. The
  route \<open>/admin\<close> of src/App.tsx declares exactly ADMIN.
\<close>

theorem ProtectedRoute_decides:
  "(\<not> loading w \<and> user w = Some u \<longrightarrow> ProtectedRoute [] w = RenderChildren)
   \<and> (\<not> loading w \<and> user w = Some u \<and> role u = STUDENT \<longrightarrow>
        ProtectedRoute [ADMIN] w = RedirectTo ''/unauthorized'')
   \<and> (\<not> loading w \<and> user w = Some u \<and> role u \<in> set allowedRoles \<longrightarrow>
        ProtectedRoute allowedRoles w = RenderChildren)
   \<and> (\<not> loading w \<and> user w = None \<longrightarrow> ProtectedRoute allowedRoles w = RedirectTo ''/login'')
   \<and> (loading w \<longrightarrow> ProtectedRoute allowedRoles w = LoadingIndicator)
   \<and> map_of protected_routes ''/admin'' = Some [ADMIN]"
  by (auto simp: ProtectedRoute_def protected_routes_def)

theorem ProtectedRoute_decides_witness:
  "ProtectedRoute [] ((initial_world None)\<lparr>user := Some ada, loading := False\<rparr>) = RenderChildren
   \<and> ProtectedRoute [ADMIN] ((initial_world None)\<lparr>user := Some ada, loading := False\<rparr>) = RedirectTo ''/unauthorized''
   \<and> ProtectedRoute [STUDENT] ((initial_world None)\<lparr>user := Some ada, loading := False\<rparr>) = RenderChildren
   \<and> ProtectedRoute [ADMIN] ((initial_world None)\<lparr>loading := False\<rparr>) = RedirectTo ''/login''
   \<and> ProtectedRoute [ADMIN] (initial_world None) = LoadingIndicator"
  using ProtectedRoute_decides[of "(initial_world None)\<lparr>user := Some ada, loading := False\<rparr>" ada "[STUDENT]"]
        ProtectedRoute_decides[of "(initial_world None)\<lparr>loading := False\<rparr>" ada "[ADMIN]"]
        ProtectedRoute_decides[of "initial_world None" ada "[ADMIN]"]
  by (simp add: initial_world_def ada_def)

section \<open>Properties of the live event channel\<close>























text \<open>
  Claim C9 fails on the code. \<open>setupEventStream\<close> returns a closure that closes the
  event source, but the mount effect drops it and registers no cleanup: after mount and
  unmount the event source is still open.
\<close>

theorem admin_unmount_leaves_stream_open:
  "snd (setupEventStream (signed_in (Some ''tok'') grace, initial_admin)) = Some CloseEventSource
   \<and> snd (admin_mount_effect (signed_in (Some ''tok'') grace, initial_admin)) = None
   \<and> map_option es_closed (eventSource (snd (admin_mount_unmount (signed_in (Some ''tok'') grace, initial_admin))))
      = Some False"
  by (simp add: admin_mount_unmount_def admin_unmount_def admin_mount_effect_def admin_run_cleanup_def
        setupEventStream_def createEventStream_def getTokenFromStorage_def truthy_str_def
        signed_in_def initial_world_def initial_admin_def)

text \<open>
  Claim C10. With nothing stored, or the empty string stored, \<open>createEventStream\<close> raises
  the error \<open>No authentication token found\<close> and creates no event source. With a
  non-empty token stored it returns an open event source whose URL ends in
  \<open>/event/stream?token=\<close> followed by the URI-encoded token.
\<close>

theorem createEventStream_token:
  "(access_token w = None \<or> access_token w = Some [] \<longrightarrow>
      createEventStream w = Inl (JsError ''Error'' ''No authentication token found''))
   \<and> (access_token w = Some token \<and> token \<noteq> [] \<longrightarrow>
      createEventStream w =
        Inr \<lparr>es_url = ''http://localhost:3000/event/stream?token='' @ encodeURIComponent token,
             withCredentials = True, es_closed = False\<rparr>)"
  by (auto simp: createEventStream_def getTokenFromStorage_def truthy_str_def API_BASE_URL_def)

theorem createEventStream_token_witness:
  "createEventStream (initial_world None) = Inl (JsError ''Error'' ''No authentication token found'')
   \<and> createEventStream (initial_world (Some ''a b/c''))
      = Inr \<lparr>es_url = ''http://localhost:3000/event/stream?token=a%20b%2Fc'',
             withCredentials = True, es_closed = False\<rparr>"
proof -
  have enc: "encodeURIComponent ''a b/c'' = ''a%20b%2Fc''" by code_simp
  show ?thesis
    using createEventStream_token[of "initial_world None" "''x''"]
          createEventStream_token[of "initial_world (Some ''a b/c'')" "''a b/c''"] enc
    by (simp add: initial_world_def)
qed

section \<open>Properties of the course chat\<close>

lemma chat_step_no_socket:
  "socket (snd s) = None \<Longrightarrow> socket (snd (chat_step cid x s)) = None"
  by (cases s; cases x)
     (auto simp: on_server_event_def handleSendMessage_def split: option.splits)

lemma chat_run_no_socket:
  "socket (snd s) = None \<Longrightarrow> socket (snd (chat_run cid xs s)) = None"
  by (induction xs arbitrary: s) (simp_all add: chat_step_no_socket)

lemma chat_step_user: "user (fst (chat_step cid x s)) = user (fst s)"
  by (cases s; cases x)
     (auto simp: on_server_event_def push_toast_def split: option.splits server_event.splits)

lemma chat_step_joins:
  "filter (\<lambda>x. fst x = ''joinCourse'') (chat_emitted (snd (chat_step cid x s)))
     = filter (\<lambda>x. fst x = ''joinCourse'') (chat_emitted (snd s))"
  by (cases s; cases x)
     (auto simp: on_server_event_def handleSendMessage_def chat_emitted_def socket_emit_def
        split: option.splits server_event.splits)

lemma chat_run_joins:
  "filter (\<lambda>x. fst x = ''joinCourse'') (chat_emitted (snd (chat_run cid xs s)))
     = filter (\<lambda>x. fst x = ''joinCourse'') (chat_emitted (snd s))"
  by (induction xs arbitrary: s) (simp_all add: chat_step_joins)

lemma chat_run_user: "user (fst (chat_run cid xs s)) = user (fst s)"
  by (induction xs arbitrary: s) (simp_all add: chat_step_user)

lemma chat_step_keeps_socket:
  "socket (snd s) \<noteq> None \<Longrightarrow> socket (snd (chat_step cid x s)) \<noteq> None"
  by (cases s; cases x)
     (auto simp: on_server_event_def handleSendMessage_def split: option.splits server_event.splits)

lemma chat_step_join_dash:
  "socket (snd s) \<noteq> None \<Longrightarrow>
   filter (\<lambda>x. fst x = ''join-course'') (chat_emitted (snd (chat_step cid x s)))
     = filter (\<lambda>x. fst x = ''join-course'') (chat_emitted (snd s))
       @ (if x = ServerEvent JoinCourseSuccess then [(''join-course'', CourseIdPayload cid)] else [])"
  by (cases s; cases x)
     (auto simp: on_server_event_def handleSendMessage_def chat_emitted_def socket_emit_def
        split: option.splits server_event.splits)

lemma chat_run_join_dash:
  "socket (snd s) \<noteq> None \<Longrightarrow>
   filter (\<lambda>x. fst x = ''join-course'') (chat_emitted (snd (chat_run cid xs s)))
     = filter (\<lambda>x. fst x = ''join-course'') (chat_emitted (snd s))
       @ replicate (length (filter (\<lambda>x. x = ServerEvent JoinCourseSuccess) xs))
           (''join-course'', CourseIdPayload cid)"
proof (induction xs arbitrary: s)
  case Nil
  show ?case by simp
next
  case (Cons x xs)
  have k: "socket (snd (chat_step cid x s)) \<noteq> None"
    using Cons.prems by (rule chat_step_keeps_socket)
  show ?case
    using Cons.IH[OF k] chat_step_join_dash[OF Cons.prems, of cid x]
    by (simp add: replicate_append_same)
qed

text \<open>
  Claim C7, as amended. For a student whose enrollment status is anything but ACTIVE, the
  mount effect creates no socket and registers no cleanup; whatever happens afterwards, there
  is still no socket and nothing emitted, and the view is the one that explains that an
  active enrollment is needed. For a user who is an instructor or whose status is ACTIVE,
  and with a non-empty token stored, the mount effect creates a socket with that token and
  emits exactly one \<open>joinCourse\<close> for the course; whatever happens afterwards, that
  remains the only \<open>joinCourse\<close> emitted, and the events named \<open>join-course\<close> that
  the component emits are one for each \<open>joinCourseSuccess\<close> it has received. An
  instructor passes the access check whatever the status. For the same users with no token
  stored, or the empty string, the mount effect creates no socket, and whatever happens
  afterwards there is no socket and nothing emitted.
\<close>

theorem chat_access:
  "(user w = Some u \<and> role u = STUDENT \<and> status \<noteq> Some ''ACTIVE'' \<longrightarrow>
      chat_mount_effect cid status w initial_chat = (initial_chat\<lparr>chat_loading := False\<rparr>, None)
      \<and> socket (snd (chat_run cid xs (w, fst (chat_mount_effect cid status w initial_chat)))) = None
      \<and> chat_emitted (snd (chat_run cid xs (w, fst (chat_mount_effect cid status w initial_chat)))) = []
      \<and> chat_render status (fst (chat_run cid xs (w, fst (chat_mount_effect cid status w initial_chat))))
           (snd (chat_run cid xs (w, fst (chat_mount_effect cid status w initial_chat))))
         = ChatUnavailable ''You need an active enrollment to access the course chat.'')
   \<and> (user w = Some u \<and> (role u = INSTRUCTOR \<or> status = Some ''ACTIVE'')
        \<and> access_token w = Some token \<and> token \<noteq> [] \<longrightarrow>
      chat_emitted (fst (chat_mount_effect cid status w initial_chat)) = [(''joinCourse'', CourseIdPayload cid)]
      \<and> map_option auth_token (socket (fst (chat_mount_effect cid status w initial_chat))) = Some token
      \<and> filter (\<lambda>x. fst x = ''joinCourse'')
           (chat_emitted (snd (chat_run cid xs (w, fst (chat_mount_effect cid status w initial_chat)))))
         = [(''joinCourse'', CourseIdPayload cid)]
      \<and> filter (\<lambda>x. fst x = ''join-course'')
           (chat_emitted (snd (chat_run cid xs (w, fst (chat_mount_effect cid status w initial_chat)))))
         = replicate (length (filter (\<lambda>x. x = ServerEvent JoinCourseSuccess) xs))
             (''join-course'', CourseIdPayload cid))
   \<and> (user w = Some u \<and> role u = INSTRUCTOR \<longrightarrow> canAccessChat (user w) status)
   \<and> (user w = Some u \<and> (role u = INSTRUCTOR \<or> status = Some ''ACTIVE'')
        \<and> (access_token w = None \<or> access_token w = Some []) \<longrightarrow>
      chat_mount_effect cid status w initial_chat = (initial_chat, None)
      \<and> socket (snd (chat_run cid xs (w, fst (chat_mount_effect cid status w initial_chat)))) = None
      \<and> chat_emitted (snd (chat_run cid xs (w, fst (chat_mount_effect cid status w initial_chat)))) = [])"
proof -
  let ?m = "chat_mount_effect cid status w initial_chat"
  let ?r = "chat_run cid xs (w, fst ?m)"
  have a: "user w = Some u \<and> role u = STUDENT \<and> status \<noteq> Some ''ACTIVE'' \<longrightarrow>
      ?m = (initial_chat\<lparr>chat_loading := False\<rparr>, None)
      \<and> socket (snd ?r) = None
      \<and> chat_emitted (snd ?r) = []
      \<and> chat_render status (fst ?r) (snd ?r)
         = ChatUnavailable ''You need an active enrollment to access the course chat.''"
  proof
    assume h: "user w = Some u \<and> role u = STUDENT \<and> status \<noteq> Some ''ACTIVE''"
    then have no: "\<not> canAccessChat (user w) status" by (simp add: canAccessChat_def)
    then have m: "?m = (initial_chat\<lparr>chat_loading := False\<rparr>, None)"
      by (simp add: chat_mount_effect_def)
    have s: "socket (snd ?r) = None"
      by (rule chat_run_no_socket) (simp only: m, simp add: initial_chat_def)
    have u: "user (fst ?r) = user w"
      by (simp add: chat_run_user)
    show "?m = (initial_chat\<lparr>chat_loading := False\<rparr>, None)
      \<and> socket (snd ?r) = None
      \<and> chat_emitted (snd ?r) = []
      \<and> chat_render status (fst ?r) (snd ?r)
         = ChatUnavailable ''You need an active enrollment to access the course chat.''"
      using m s u no h by (simp add: chat_emitted_def chat_render_def)
  qed
  have b: "user w = Some u \<and> (role u = INSTRUCTOR \<or> status = Some ''ACTIVE'')
        \<and> access_token w = Some token \<and> token \<noteq> [] \<longrightarrow>
      chat_emitted (fst ?m) = [(''joinCourse'', CourseIdPayload cid)]
      \<and> map_option auth_token (socket (fst ?m)) = Some token
      \<and> filter (\<lambda>x. fst x = ''joinCourse'') (chat_emitted (snd ?r))
         = [(''joinCourse'', CourseIdPayload cid)]
      \<and> filter (\<lambda>x. fst x = ''join-course'') (chat_emitted (snd ?r))
         = replicate (length (filter (\<lambda>x. x = ServerEvent JoinCourseSuccess) xs))
             (''join-course'', CourseIdPayload cid)"
  proof
    assume h: "user w = Some u \<and> (role u = INSTRUCTOR \<or> status = Some ''ACTIVE'')
        \<and> access_token w = Some token \<and> token \<noteq> []"
    then have yes: "canAccessChat (user w) status" by (auto simp: canAccessChat_def)
    have e: "chat_emitted (fst ?m) = [(''joinCourse'', CourseIdPayload cid)]"
      using h yes by (simp add: chat_mount_effect_def getTokenFromStorage_def truthy_str_def chat_emitted_def)
    have t: "map_option auth_token (socket (fst ?m)) = Some token"
      using h yes by (simp add: chat_mount_effect_def getTokenFromStorage_def truthy_str_def)
    then have so: "socket (snd (w, fst ?m)) \<noteq> None" by auto
    have j: "filter (\<lambda>x. fst x = ''join-course'') (chat_emitted (snd ?r))
         = replicate (length (filter (\<lambda>x. x = ServerEvent JoinCourseSuccess) xs))
             (''join-course'', CourseIdPayload cid)"
      using chat_run_join_dash[OF so, of cid xs] e by simp
    show "chat_emitted (fst ?m) = [(''joinCourse'', CourseIdPayload cid)]
      \<and> map_option auth_token (socket (fst ?m)) = Some token
      \<and> filter (\<lambda>x. fst x = ''joinCourse'') (chat_emitted (snd ?r))
         = [(''joinCourse'', CourseIdPayload cid)]
      \<and> filter (\<lambda>x. fst x = ''join-course'') (chat_emitted (snd ?r))
         = replicate (length (filter (\<lambda>x. x = ServerEvent JoinCourseSuccess) xs))
             (''join-course'', CourseIdPayload cid)"
      using e t j by (simp add: chat_run_joins)
  qed
  have c: "user w = Some u \<and> role u = INSTRUCTOR \<longrightarrow> canAccessChat (user w) status"
    by (simp add: canAccessChat_def)
  have d: "user w = Some u \<and> (role u = INSTRUCTOR \<or> status = Some ''ACTIVE'')
        \<and> (access_token w = None \<or> access_token w = Some []) \<longrightarrow>
      ?m = (initial_chat, None) \<and> socket (snd ?r) = None \<and> chat_emitted (snd ?r) = []"
  proof
    assume h: "user w = Some u \<and> (role u = INSTRUCTOR \<or> status = Some ''ACTIVE'')
        \<and> (access_token w = None \<or> access_token w = Some [])"
    then have yes: "canAccessChat (user w) status" by (auto simp: canAccessChat_def)
    have m: "?m = (initial_chat, None)"
      using h yes by (auto simp: chat_mount_effect_def getTokenFromStorage_def truthy_str_def)
    have s: "socket (snd ?r) = None"
      by (rule chat_run_no_socket) (simp only: m, simp add: initial_chat_def)
    show "?m = (initial_chat, None) \<and> socket (snd ?r) = None \<and> chat_emitted (snd ?r) = []"
      using m s by (simp add: chat_emitted_def)
  qed
  show ?thesis by (rule conjI[OF a conjI[OF b conjI[OF c d]]])
qed

theorem chat_access_witness:
  "(chat_mount_effect 12 (Some ''PENDING'') (signed_in (Some ''tok'') ada) initial_chat
      = (initial_chat\<lparr>chat_loading := False\<rparr>, None)
    \<and> socket (snd (chat_run 12 [ServerEvent JoinCourseSuccess, TypeText ''hi'', Submit]
        (signed_in (Some ''tok'') ada,
         fst (chat_mount_effect 12 (Some ''PENDING'') (signed_in (Some ''tok'') ada) initial_chat)))) = None
    \<and> chat_emitted (snd (chat_run 12 [ServerEvent JoinCourseSuccess, TypeText ''hi'', Submit]
        (signed_in (Some ''tok'') ada,
         fst (chat_mount_effect 12 (Some ''PENDING'') (signed_in (Some ''tok'') ada) initial_chat)))) = []
    \<and> chat_render (Some ''PENDING'')
         (fst (chat_run 12 [ServerEvent JoinCourseSuccess, TypeText ''hi'', Submit]
            (signed_in (Some ''tok'') ada,
             fst (chat_mount_effect 12 (Some ''PENDING'') (signed_in (Some ''tok'') ada) initial_chat))))
         (snd (chat_run 12 [ServerEvent JoinCourseSuccess, TypeText ''hi'', Submit]
            (signed_in (Some ''tok'') ada,
             fst (chat_mount_effect 12 (Some ''PENDING'') (signed_in (Some ''tok'') ada) initial_chat))))
       = ChatUnavailable ''You need an active enrollment to access the course chat.'')
   \<and> (chat_emitted (fst (chat_mount_effect 12 (Some ''ACTIVE'') (signed_in (Some ''tok'') ada) initial_chat))
        = [(''joinCourse'', CourseIdPayload 12)]
      \<and> map_option auth_token
           (socket (fst (chat_mount_effect 12 (Some ''ACTIVE'') (signed_in (Some ''tok'') ada) initial_chat)))
        = Some ''tok''
      \<and> filter (\<lambda>x. fst x = ''joinCourse'')
          (chat_emitted (snd (chat_run 12 [ServerEvent JoinCourseSuccess, TypeText ''hi'', Submit]
             (signed_in (Some ''tok'') ada,
              fst (chat_mount_effect 12 (Some ''ACTIVE'') (signed_in (Some ''tok'') ada) initial_chat)))))
        = [(''joinCourse'', CourseIdPayload 12)]
      \<and> filter (\<lambda>x. fst x = ''join-course'')
          (chat_emitted (snd (chat_run 12 [ServerEvent JoinCourseSuccess, TypeText ''hi'', Submit]
             (signed_in (Some ''tok'') ada,
              fst (chat_mount_effect 12 (Some ''ACTIVE'') (signed_in (Some ''tok'') ada) initial_chat)))))
        = replicate (length (filter (\<lambda>x. x = ServerEvent JoinCourseSuccess)
                               [ServerEvent JoinCourseSuccess, TypeText ''hi'', Submit]))
            (''join-course'', CourseIdPayload 12))
   \<and> canAccessChat (user (signed_in (Some ''tok'') grace)) None
   \<and> (chat_mount_effect 12 (Some ''ACTIVE'') (signed_in None ada) initial_chat = (initial_chat, None)
      \<and> socket (snd (chat_run 12 [ServerEvent JoinCourseSuccess, TypeText ''hi'', Submit]
          (signed_in None ada,
           fst (chat_mount_effect 12 (Some ''ACTIVE'') (signed_in None ada) initial_chat)))) = None
      \<and> chat_emitted (snd (chat_run 12 [ServerEvent JoinCourseSuccess, TypeText ''hi'', Submit]
          (signed_in None ada,
           fst (chat_mount_effect 12 (Some ''ACTIVE'') (signed_in None ada) initial_chat)))) = [])"
proof -
  let ?xs = "[ServerEvent JoinCourseSuccess, TypeText ''hi'', Submit]"
  have a: "user (signed_in (Some ''tok'') ada) = Some ada \<and> role ada = STUDENT
      \<and> Some ''PENDING'' \<noteq> Some ''ACTIVE''"
    by (simp add: signed_in_def initial_world_def ada_def)
  have b: "user (signed_in (Some ''tok'') ada) = Some ada
      \<and> (role ada = INSTRUCTOR \<or> Some ''ACTIVE'' = Some ''ACTIVE'')
      \<and> access_token (signed_in (Some ''tok'') ada) = Some ''tok'' \<and> ''tok'' \<noteq> []"
    by (simp add: signed_in_def initial_world_def)
  have g: "user (signed_in (Some ''tok'') grace) = Some grace \<and> role grace = INSTRUCTOR"
    by (simp add: signed_in_def initial_world_def grace_def)
  have d: "user (signed_in None ada) = Some ada
      \<and> (role ada = INSTRUCTOR \<or> Some ''ACTIVE'' = Some ''ACTIVE'')
      \<and> (access_token (signed_in None ada) = None \<or> access_token (signed_in None ada) = Some [])"
    by (simp add: signed_in_def initial_world_def)
  note p1 = chat_access[of "signed_in (Some ''tok'') ada" ada "Some ''PENDING''" 12 ?xs "''tok''",
      THEN conjunct1, THEN mp, OF a]
  note p2 = chat_access[of "signed_in (Some ''tok'') ada" ada "Some ''ACTIVE''" 12 ?xs "''tok''",
      THEN conjunct2, THEN conjunct1, THEN mp, OF b]
  note p3 = chat_access[of "signed_in (Some ''tok'') grace" grace None 12 ?xs "''tok''",
      THEN conjunct2, THEN conjunct2, THEN conjunct1, THEN mp, OF g]
  note p4 = chat_access[of "signed_in None ada" ada "Some ''ACTIVE''" 12 ?xs "''tok''",
      THEN conjunct2, THEN conjunct2, THEN conjunct2, THEN mp, OF d]
  show ?thesis by (rule conjI[OF p1 conjI[OF p2 conjI[OF p3 p4]]])
qed

text \<open>
  Against claim C7 as stated: a student with status ACTIVE and no token in storage mounts the
  chat without any socket and without any join request.
\<close>

theorem chat_join_counterexample:
  "user (signed_in None ada) = Some ada \<and> role ada = STUDENT
   \<and> chat_mount_effect 12 (Some ''ACTIVE'') (signed_in None ada) initial_chat = (initial_chat, None)
   \<and> chat_emitted (fst (chat_mount_effect 12 (Some ''ACTIVE'') (signed_in None ada) initial_chat)) = []"
  by (simp add: chat_mount_effect_def canAccessChat_def signed_in_def initial_world_def ada_def
        getTokenFromStorage_def chat_emitted_def initial_chat_def)

lemma on_join_error:
  "socket c = Some sock \<Longrightarrow>
   on_server_event cid JoinCourseError (w, c)
     = (push_toast \<lparr>title = ''Error'', description = Text ''Failed to connect to course chat'',
                    destructive = True\<rparr> w, c\<lparr>chat_loading := False\<rparr>)"
  by (simp add: on_server_event_def)

lemma handleSendMessage_send:
  "trim (newMessage c) \<noteq> [] \<Longrightarrow> socket c = Some sock \<Longrightarrow> user w = Some u \<Longrightarrow>
   chat_emitted (handleSendMessage cid w c) =
     chat_emitted c @ [(''sendCourseMessage'',
                        MessagePayload cid (user_id u) (username u) (trim (newMessage c)))]
   \<and> newMessage (handleSendMessage cid w c) = []
   \<and> messages (handleSendMessage cid w c) = messages c
   \<and> chat_loading (handleSendMessage cid w c) = chat_loading c"
  by (simp add: handleSendMessage_def chat_emitted_def socket_emit_def truthy_str_def)

text \<open>
  Claim C8, as amended. If submitting the form emits anything, then the trimmed input was
  non-empty, the component held a socket and a user was signed in. When those three hold,
  exactly one \<open>sendCourseMessage\<close> is emitted, carrying the course id, the user's id
  and name and the trimmed text; the input is cleared in the same step; the list of messages
  and the loading flag are untouched. Otherwise submitting changes nothing. Holding a socket
  does not mean that the room was joined: after the server has refused the join the form is
  on screen for a user with access, and a submit emits the message all the same.
\<close>

theorem handleSendMessage_emits:
  "(chat_emitted (handleSendMessage cid w c) \<noteq> chat_emitted c \<longrightarrow>
      trim (newMessage c) \<noteq> [] \<and> socket c \<noteq> None \<and> user w \<noteq> None)
   \<and> (trim (newMessage c) \<noteq> [] \<and> socket c = Some sock \<and> user w = Some u \<longrightarrow>
      chat_emitted (handleSendMessage cid w c) =
        chat_emitted c @ [(''sendCourseMessage'',
                           MessagePayload cid (user_id u) (username u) (trim (newMessage c)))]
      \<and> newMessage (handleSendMessage cid w c) = []
      \<and> messages (handleSendMessage cid w c) = messages c
      \<and> chat_loading (handleSendMessage cid w c) = chat_loading c)
   \<and> (trim (newMessage c) = [] \<or> socket c = None \<or> user w = None \<longrightarrow>
      handleSendMessage cid w c = c)
   \<and> (trim t \<noteq> [] \<and> socket c = Some sock \<and> user w = Some u \<longrightarrow>
      chat_emitted (snd (chat_run cid [ServerEvent JoinCourseError, TypeText t, Submit] (w, c)))
        = chat_emitted c @ [(''sendCourseMessage'',
                             MessagePayload cid (user_id u) (username u) (trim t))]
      \<and> chat_render status w (snd (chat_run cid [ServerEvent JoinCourseError] (w, c)))
        = (if canAccessChat (user w) status then ChatPanel
           else chat_render status w c))"
proof -
  have p1: "chat_emitted (handleSendMessage cid w c) \<noteq> chat_emitted c \<longrightarrow>
      trim (newMessage c) \<noteq> [] \<and> socket c \<noteq> None \<and> user w \<noteq> None"
    by (auto simp: handleSendMessage_def chat_emitted_def truthy_str_def split: option.splits)
  have p2: "trim (newMessage c) \<noteq> [] \<and> socket c = Some sock \<and> user w = Some u \<longrightarrow>
      chat_emitted (handleSendMessage cid w c) =
        chat_emitted c @ [(''sendCourseMessage'',
                           MessagePayload cid (user_id u) (username u) (trim (newMessage c)))]
      \<and> newMessage (handleSendMessage cid w c) = []
      \<and> messages (handleSendMessage cid w c) = messages c
      \<and> chat_loading (handleSendMessage cid w c) = chat_loading c"
    by (simp add: handleSendMessage_send)
  have p3: "trim (newMessage c) = [] \<or> socket c = None \<or> user w = None \<longrightarrow>
      handleSendMessage cid w c = c"
    by (auto simp: handleSendMessage_def truthy_str_def split: option.splits)
  have q: "trim t \<noteq> [] \<and> socket c = Some sock \<and> user w = Some u \<longrightarrow>
      chat_emitted (snd (chat_run cid [ServerEvent JoinCourseError, TypeText t, Submit] (w, c)))
        = chat_emitted c @ [(''sendCourseMessage'',
                             MessagePayload cid (user_id u) (username u) (trim t))]
      \<and> chat_render status w (snd (chat_run cid [ServerEvent JoinCourseError] (w, c)))
        = (if canAccessChat (user w) status then ChatPanel else chat_render status w c)"
  proof
    assume h: "trim t \<noteq> [] \<and> socket c = Some sock \<and> user w = Some u"
    let ?w = "push_toast \<lparr>title = ''Error'', description = Text ''Failed to connect to course chat'',
                    destructive = True\<rparr> w"
    let ?c = "c\<lparr>chat_loading := False, newMessage := t\<rparr>"
    have e: "on_server_event cid JoinCourseError (w, c) = (?w, c\<lparr>chat_loading := False\<rparr>)"
      using h by (simp add: on_join_error)
    have r: "chat_run cid [ServerEvent JoinCourseError, TypeText t, Submit] (w, c)
        = (?w, handleSendMessage cid ?w ?c)"
      by (simp add: e)
    have s: "chat_emitted (handleSendMessage cid ?w ?c)
        = chat_emitted ?c @ [(''sendCourseMessage'',
            MessagePayload cid (user_id u) (username u) (trim (newMessage ?c)))]"
      using h handleSendMessage_send[of ?c sock ?w u cid] by (simp add: push_toast_def)
    have v: "chat_render status w (snd (chat_run cid [ServerEvent JoinCourseError] (w, c)))
        = (if canAccessChat (user w) status then ChatPanel else chat_render status w c)"
      by (simp add: e chat_render_def)
    show "chat_emitted (snd (chat_run cid [ServerEvent JoinCourseError, TypeText t, Submit] (w, c)))
        = chat_emitted c @ [(''sendCourseMessage'',
                             MessagePayload cid (user_id u) (username u) (trim t))]
      \<and> chat_render status w (snd (chat_run cid [ServerEvent JoinCourseError] (w, c)))
        = (if canAccessChat (user w) status then ChatPanel else chat_render status w c)"
      using s v by (simp only: r snd_conv) (simp add: chat_emitted_def)
  qed
  show ?thesis by (rule conjI[OF p1 conjI[OF p2 conjI[OF p3 q]]])
qed

theorem handleSendMessage_emits_witness:
  "(chat_emitted (handleSendMessage 12 (signed_in (Some ''tok'') ada) (joined_chat ''  hello all ''))
      = chat_emitted (joined_chat ''  hello all '')
        @ [(''sendCourseMessage'',
            MessagePayload 12 (user_id ada) (username ada) (trim (newMessage (joined_chat ''  hello all ''))))]
    \<and> newMessage (handleSendMessage 12 (signed_in (Some ''tok'') ada) (joined_chat ''  hello all '')) = []
    \<and> messages (handleSendMessage 12 (signed_in (Some ''tok'') ada) (joined_chat ''  hello all ''))
       = messages (joined_chat ''  hello all '')
    \<and> chat_loading (handleSendMessage 12 (signed_in (Some ''tok'') ada) (joined_chat ''  hello all ''))
       = chat_loading (joined_chat ''  hello all ''))
   \<and> handleSendMessage 12 (signed_in (Some ''tok'') ada) (joined_chat ''   '') = joined_chat ''   ''
   \<and> handleSendMessage 12 (signed_in (Some ''tok'') ada) (initial_chat\<lparr>newMessage := ''hi''\<rparr>)
      = initial_chat\<lparr>newMessage := ''hi''\<rparr>
   \<and> trim (newMessage (joined_chat ''  hello all '')) = ''hello all''
   \<and> (chat_emitted (snd (chat_run 12 [ServerEvent JoinCourseError, TypeText ''hi'', Submit]
          (signed_in (Some ''tok'') ada, joined_chat [])))
        = chat_emitted (joined_chat [])
          @ [(''sendCourseMessage'', MessagePayload 12 (user_id ada) (username ada) (trim ''hi''))]
      \<and> chat_render (Some ''ACTIVE'') (signed_in (Some ''tok'') ada)
           (snd (chat_run 12 [ServerEvent JoinCourseError] (signed_in (Some ''tok'') ada, joined_chat [])))
        = (if canAccessChat (user (signed_in (Some ''tok'') ada)) (Some ''ACTIVE'') then ChatPanel
           else chat_render (Some ''ACTIVE'') (signed_in (Some ''tok'') ada) (joined_chat [])))"
proof -
  let ?w = "signed_in (Some ''tok'') ada"
  let ?sock = "\<lparr>auth_token = ''tok'', transports = [''websocket'', ''polling''],
                 emitted = [(''joinCourse'', CourseIdPayload 12)], disconnected = False\<rparr>"
  have t: "trim (newMessage (joined_chat ''  hello all '')) = ''hello all''"
    by (simp add: trim_def is_whitespace_def joined_chat_def)
  have h1: "trim (newMessage (joined_chat ''  hello all '')) \<noteq> []
      \<and> socket (joined_chat ''  hello all '') = Some ?sock \<and> user ?w = Some ada"
    by (simp add: trim_def is_whitespace_def joined_chat_def signed_in_def initial_world_def)
  have h2: "trim (newMessage (joined_chat ''   '')) = [] \<or> socket (joined_chat ''   '') = None \<or> user ?w = None"
    by (simp add: trim_def is_whitespace_def joined_chat_def)
  have h3: "trim (newMessage (initial_chat\<lparr>newMessage := ''hi''\<rparr>)) = []
      \<or> socket (initial_chat\<lparr>newMessage := ''hi''\<rparr>) = None \<or> user ?w = None"
    by (simp add: initial_chat_def)
  have h4: "trim ''hi'' \<noteq> [] \<and> socket (joined_chat []) = Some ?sock \<and> user ?w = Some ada"
    by (simp add: trim_def is_whitespace_def joined_chat_def signed_in_def initial_world_def)
  note r1 = handleSendMessage_emits[of 12 ?w "joined_chat ''  hello all ''" ?sock ada "''hi''" "Some ''ACTIVE''",
      THEN conjunct2, THEN conjunct1, THEN mp, OF h1]
  note r2 = handleSendMessage_emits[of 12 ?w "joined_chat ''   ''" ?sock ada "''hi''" "Some ''ACTIVE''",
      THEN conjunct2, THEN conjunct2, THEN conjunct1, THEN mp, OF h2]
  note r3 = handleSendMessage_emits[of 12 ?w "initial_chat\<lparr>newMessage := ''hi''\<rparr>" ?sock ada "''hi''" "Some ''ACTIVE''",
      THEN conjunct2, THEN conjunct2, THEN conjunct1, THEN mp, OF h3]
  note r4 = handleSendMessage_emits[of 12 ?w "joined_chat []" ?sock ada "''hi''" "Some ''ACTIVE''",
      THEN conjunct2, THEN conjunct2, THEN conjunct2, THEN mp, OF h4]
  show ?thesis by (rule conjI[OF r1 conjI[OF r2 conjI[OF r3 conjI[OF t r4]]]])
qed

text \<open>
  Against claim C8 as stated: an ACTIVE student mounts the chat, the server refuses the join,
  the student types and submits; the chat panel is shown, and the message is emitted on a
  channel that was never joined.
\<close>

theorem send_after_refused_join_counterexample:
  "chat_emitted (snd (chat_run 12 [ServerEvent JoinCourseError, TypeText ''hi'', Submit]
        (signed_in (Some ''tok'') ada,
         fst (chat_mount_effect 12 (Some ''ACTIVE'') (signed_in (Some ''tok'') ada) initial_chat))))
     = [(''joinCourse'', CourseIdPayload 12),
        (''sendCourseMessage'', MessagePayload 12 7 ''ada'' ''hi'')]
   \<and> chat_render (Some ''ACTIVE'') (signed_in (Some ''tok'') ada)
        (snd (chat_run 12 [ServerEvent JoinCourseError]
          (signed_in (Some ''tok'') ada,
           fst (chat_mount_effect 12 (Some ''ACTIVE'') (signed_in (Some ''tok'') ada) initial_chat))))
     = ChatPanel"
  by (simp add: chat_mount_effect_def canAccessChat_def signed_in_def initial_world_def ada_def
        getTokenFromStorage_def truthy_str_def initial_chat_def on_server_event_def
        handleSendMessage_def trim_def is_whitespace_def chat_emitted_def socket_emit_def
        push_toast_def chat_render_def)

end
